theory Spec2Isabelle
  imports Main "HOL-Library.Sublist"
begin

section \<open>Data model of the shop's \<open>AppProvider\<close>\<close>

text \<open>
  A product as the catalogue service returns it. The identifier is an integer held by a
  JavaScript number, the category a string. The price and the rating are decimal numbers
  that no operation below reads; they are left out of the record.
\<close>

record product =
  product_id :: int
  title :: string
  category :: string
  description :: string
  image :: string

text \<open>
  The ten \<open>useState\<close> cells of \<open>AppProvider\<close>, under the names of the source.
  \<open>error\<close> and \<open>selectedProduct\<close> are \<open>null\<close> or a value.
\<close>

record app_state =
  products :: "product list"
  categories :: "string list"
  filteredProducts :: "product list"
  currentFilter :: string
  likedProducts :: "int list"
  dislikedProducts :: "int list"
  loading :: bool
  error :: "string option"
  currentView :: string
  selectedProduct :: "product option"

section \<open>The toggle operations\<close>

text \<open>
  \<open>toggleLike\<close> hands \<open>setLikedProducts\<close> an updater. When the identifier is in the
  previous list the updater filters it out and touches nothing else; otherwise it queues
  \<open>setDislikedProducts(d => d.filter(id => id !== productId))\<close> and returns the
  previous list with the identifier appended. \<open>toggleDislike\<close> is the same with the
  two lists exchanged.
\<close>

definition toggleLike :: "int \<Rightarrow> app_state \<Rightarrow> app_state" where
  "toggleLike productId s =
     (if productId \<in> set (likedProducts s)
      then s\<lparr>likedProducts := filter (\<lambda>i. i \<noteq> productId) (likedProducts s)\<rparr>
      else s\<lparr>dislikedProducts := filter (\<lambda>i. i \<noteq> productId) (dislikedProducts s),
             likedProducts := likedProducts s @ [productId]\<rparr>)"

definition toggleDislike :: "int \<Rightarrow> app_state \<Rightarrow> app_state" where
  "toggleDislike productId s =
     (if productId \<in> set (dislikedProducts s)
      then s\<lparr>dislikedProducts := filter (\<lambda>i. i \<noteq> productId) (dislikedProducts s)\<rparr>
      else s\<lparr>likedProducts := filter (\<lambda>i. i \<noteq> productId) (likedProducts s),
             dislikedProducts := dislikedProducts s @ [productId]\<rparr>)"

text \<open>A finite sequence of toggle calls, applied from left to right.\<close>

datatype toggle = ToggleLike int | ToggleDislike int

fun apply_toggle :: "toggle \<Rightarrow> app_state \<Rightarrow> app_state" where
  "apply_toggle (ToggleLike i) s = toggleLike i s"
| "apply_toggle (ToggleDislike i) s = toggleDislike i s"

fun apply_toggles :: "toggle list \<Rightarrow> app_state \<Rightarrow> app_state" where
  "apply_toggles [] s = s"
| "apply_toggles (t # ts) s = apply_toggles ts (apply_toggle t s)"

text \<open>
  What the product card and the detail view compute for a product:
  \<open>likedProducts.includes(product.id)\<close> and \<open>dislikedProducts.includes(product.id)\<close>.
\<close>

definition isLiked :: "app_state \<Rightarrow> int \<Rightarrow> bool" where
  "isLiked s i = (i \<in> set (likedProducts s))"

definition isDisliked :: "app_state \<Rightarrow> int \<Rightarrow> bool" where
  "isDisliked s i = (i \<in> set (dislikedProducts s))"

text \<open>
  The three preference states of the specification. An identifier that is in both lists
  has none of them.
\<close>

datatype preference = NEUTRAL | LIKED | DISLIKED

definition preference_of :: "app_state \<Rightarrow> int \<Rightarrow> preference option" where
  "preference_of s i =
     (if isLiked s i then (if isDisliked s i then None else Some LIKED)
      else (if isDisliked s i then Some DISLIKED else Some NEUTRAL))"

text \<open>The transition table as the specification words it.\<close>

fun spec_toggleLike :: "preference \<Rightarrow> preference" where
  "spec_toggleLike NEUTRAL = LIKED"
| "spec_toggleLike LIKED = NEUTRAL"
| "spec_toggleLike DISLIKED = LIKED"

fun spec_toggleDislike :: "preference \<Rightarrow> preference" where
  "spec_toggleDislike NEUTRAL = DISLIKED"
| "spec_toggleDislike DISLIKED = NEUTRAL"
| "spec_toggleDislike LIKED = DISLIKED"

text \<open>
  The state of the first render: the defaults passed to \<open>useState\<close>, with the two
  preference lists as the initialisers give them.
\<close>

definition initial_state :: "int list \<Rightarrow> int list \<Rightarrow> app_state" where
  "initial_state liked disliked =
     \<lparr>products = [], categories = [], filteredProducts = [], currentFilter = ''all'',
      likedProducts = liked, dislikedProducts = disliked, loading = True, error = None,
      currentView = ''home'', selectedProduct = None\<rparr>"

section \<open>Filtering and navigation\<close>

text \<open>
  \<open>filterProducts\<close> records the category and stores either the whole catalogue
  (\<open>category === 'all'\<close>) or \<open>products.filter(p => p.category === category)\<close>.
\<close>

definition filterProducts :: "string \<Rightarrow> app_state \<Rightarrow> app_state" where
  "filterProducts cat s =
     (if cat = ''all''
      then s\<lparr>currentFilter := cat, filteredProducts := products s\<rparr>
      else s\<lparr>currentFilter := cat,
             filteredProducts := filter (\<lambda>p. category p = cat) (products s)\<rparr>)"

text \<open>
  \<open>navigateTo(view, product = null)\<close>: the second argument is \<open>None\<close> when the caller
  leaves it out or passes \<open>null\<close>. Both setters run on every call. The scroll to the
  top of the window is not part of the state.
\<close>

definition navigateTo :: "string \<Rightarrow> product option \<Rightarrow> app_state \<Rightarrow> app_state" where
  "navigateTo view p s = s\<lparr>currentView := view, selectedProduct := p\<rparr>"

section \<open>JSON text of an identifier list\<close>

text \<open>
  \<open>JSON.stringify\<close> of an array of integers writes the decimal numerals between
  brackets, separated by commas and without blanks. A JavaScript number holds every
  integer of magnitude below \<open>2^53\<close> exactly and the library writes all its digits;
  these are the safe integers, and on them the functions below agree with the library.
  Beyond that range the library rounds and, from \<open>10^21\<close> on, writes an exponent,
  which the functions below do not follow.
\<close>

definition safe_integer :: "int \<Rightarrow> bool" where
  "safe_integer i = (- 9007199254740992 < i \<and> i < 9007199254740992)"

definition digit_char :: "nat \<Rightarrow> char" where
  "digit_char d = ''0123456789'' ! d"

fun string_of_nat :: "nat \<Rightarrow> string" where
  "string_of_nat n =
     (if n < 10 then [digit_char n]
      else string_of_nat (n div 10) @ [digit_char (n mod 10)])"

declare string_of_nat.simps [simp del]

definition string_of_int :: "int \<Rightarrow> string" where
  "string_of_int i =
     (if i < 0 then CHR ''-'' # string_of_nat (nat (- i)) else string_of_nat (nat i))"

fun join_commas :: "string list \<Rightarrow> string" where
  "join_commas [] = []"
| "join_commas [p] = p"
| "join_commas (p # q # ps) = p @ CHR '','' # join_commas (q # ps)"

definition JSON_stringify :: "int list \<Rightarrow> string" where
  "JSON_stringify xs = CHR ''['' # join_commas (map string_of_int xs) @ '']''"

text \<open>
  \<open>JSON.parse\<close>, as far as this program depends on it. The model decides two kinds of
  text. A text that is empty after its leading JSON blanks, or whose first character
  there cannot begin any JSON value, is a \<open>SyntaxError\<close>. A text that is a bracketed,
  comma-separated sequence of integer numerals in their canonical spelling is the list
  of these integers, as in the library when they are safe integers. Every other text
  (another JSON value, the same array spelt with blanks, or an error further inside) is
  left undecided and reported as \<open>Unmodelled\<close>; the texts the persistence effects
  write are all of the decided kind.
\<close>

datatype js_error = SyntaxError | Unmodelled

definition is_json_blank :: "char \<Rightarrow> bool" where
  "is_json_blank c = (c \<in> set [CHR '' '', CHR 0x09, CHR 0x0A, CHR 0x0D])"

definition begins_json_value :: "char \<Rightarrow> bool" where
  "begins_json_value c = (c \<in> set (CHR 0x22 # ''{[-0123456789tfn''))"

definition digit_val :: "char \<Rightarrow> nat" where
  "digit_val c = of_char c - 48"

definition nat_of_digits :: "string \<Rightarrow> nat" where
  "nat_of_digits ds = foldl (\<lambda>a c. 10 * a + digit_val c) 0 ds"

definition int_of_numeral :: "string \<Rightarrow> int" where
  "int_of_numeral s =
     (case s of [] \<Rightarrow> 0
      | c # ds \<Rightarrow> if c = CHR ''-'' then - int (nat_of_digits ds) else int (nat_of_digits s))"

definition parse_numeral :: "string \<Rightarrow> int option" where
  "parse_numeral s = (if string_of_int (int_of_numeral s) = s then Some (int_of_numeral s) else None)"

fun split_commas :: "string \<Rightarrow> string list" where
  "split_commas [] = [[]]"
| "split_commas (c # cs) =
     (if c = CHR '','' then [] # split_commas cs
      else (case split_commas cs of [] \<Rightarrow> [[c]] | p # ps \<Rightarrow> (c # p) # ps))"

fun parse_numerals :: "string list \<Rightarrow> int list option" where
  "parse_numerals [] = Some []"
| "parse_numerals (p # ps) =
     (case parse_numeral p of None \<Rightarrow> None
      | Some v \<Rightarrow> (case parse_numerals ps of None \<Rightarrow> None | Some vs \<Rightarrow> Some (v # vs)))"

definition JSON_parse :: "string \<Rightarrow> js_error + int list" where
  "JSON_parse text =
     (case dropWhile is_json_blank text of
        [] \<Rightarrow> Inl SyntaxError
      | c # cs \<Rightarrow>
          if \<not> begins_json_value c then Inl SyntaxError
          else if c = CHR ''['' \<and> cs \<noteq> [] \<and> last cs = CHR '']''
          then (if butlast cs = [] then Inr []
                else (case parse_numerals (split_commas (butlast cs)) of
                        None \<Rightarrow> Inl Unmodelled
                      | Some xs \<Rightarrow> Inr xs))
          else Inl Unmodelled)"

section \<open>Start-up and persistence\<close>

text \<open>
  The lazy initialiser of the two preference cells:
  \<open>const saved = localStorage.getItem(key); return saved ? JSON.parse(saved) : []\<close>.
  \<open>getItem\<close> gives \<open>null\<close> for a missing key, and the empty string is falsy as well.
  An exception of \<open>JSON.parse\<close> is not caught.
\<close>

type_synonym storage = "string \<rightharpoonup> string"

definition restore_saved :: "storage \<Rightarrow> string \<Rightarrow> js_error + int list" where
  "restore_saved st key =
     (case st key of
        None \<Rightarrow> Inr []
      | Some saved \<Rightarrow> if saved = [] then Inr [] else JSON_parse saved)"

text \<open>
  The first render of \<open>AppProvider\<close>: the liked cell is initialised before the disliked
  one, and an exception in either ends the render.
\<close>

definition AppProvider_init :: "storage \<Rightarrow> js_error + app_state" where
  "AppProvider_init st =
     (case restore_saved st ''likedProducts'' of
        Inl e \<Rightarrow> Inl e
      | Inr liked \<Rightarrow>
          (case restore_saved st ''dislikedProducts'' of
             Inl e \<Rightarrow> Inl e
           | Inr disliked \<Rightarrow> Inr (initial_state liked disliked)))"

text \<open>The provider's state together with the browser's local storage.\<close>

record world =
  app :: app_state
  localStorage :: storage

text \<open>
  The two persistence effects: \<open>localStorage.setItem(key, JSON.stringify(list))\<close>. Each
  runs after the first render and after every render in which its list is a new array.
\<close>

definition persistLiked :: "world \<Rightarrow> world" where
  "persistLiked w =
     w\<lparr>localStorage := (localStorage w)(''likedProducts'' \<mapsto> JSON_stringify (likedProducts (app w)))\<rparr>"

definition persistDisliked :: "world \<Rightarrow> world" where
  "persistDisliked w =
     w\<lparr>localStorage :=
         (localStorage w)(''dislikedProducts'' \<mapsto> JSON_stringify (dislikedProducts (app w)))\<rparr>"

definition AppProvider_mount :: "storage \<Rightarrow> js_error + world" where
  "AppProvider_mount st =
     (case AppProvider_init st of
        Inl e \<Rightarrow> Inl e
      | Inr s \<Rightarrow> Inr (persistDisliked (persistLiked \<lparr>app = s, localStorage = st\<rparr>)))"

text \<open>
  A click on a like or dislike button, with the effects of the render that follows.
  \<open>toggleLike\<close> always installs a new liked array; it installs a new disliked array
  (the result of \<open>filter\<close>) exactly when the identifier was not liked. \<open>toggleDislike\<close>
  mirrors this.
\<close>

definition click_toggleLike :: "int \<Rightarrow> world \<Rightarrow> world" where
  "click_toggleLike i w =
     (if i \<in> set (likedProducts (app w))
      then persistLiked (w\<lparr>app := toggleLike i (app w)\<rparr>)
      else persistDisliked (persistLiked (w\<lparr>app := toggleLike i (app w)\<rparr>)))"

definition click_toggleDislike :: "int \<Rightarrow> world \<Rightarrow> world" where
  "click_toggleDislike i w =
     (if i \<in> set (dislikedProducts (app w))
      then persistDisliked (w\<lparr>app := toggleDislike i (app w)\<rparr>)
      else persistDisliked (persistLiked (w\<lparr>app := toggleDislike i (app w)\<rparr>)))"

fun click :: "toggle \<Rightarrow> world \<Rightarrow> world" where
  "click (ToggleLike i) w = click_toggleLike i w"
| "click (ToggleDislike i) w = click_toggleDislike i w"

fun clicks :: "toggle list \<Rightarrow> world \<Rightarrow> world" where
  "clicks [] w = w"
| "clicks (t # ts) w = clicks ts (click t w)"

text \<open>The identifier a click is about.\<close>

fun toggled :: "toggle \<Rightarrow> int" where
  "toggled (ToggleLike i) = i"
| "toggled (ToggleDislike i) = i"

text \<open>Both keys hold the text of the current lists.\<close>

definition persisted :: "world \<Rightarrow> bool" where
  "persisted w =
     (localStorage w ''likedProducts'' = Some (JSON_stringify (likedProducts (app w))) \<and>
      localStorage w ''dislikedProducts'' = Some (JSON_stringify (dislikedProducts (app w))))"

text \<open>No identifier is in both lists.\<close>

definition exclusive :: "app_state \<Rightarrow> bool" where
  "exclusive s = (set (likedProducts s) \<inter> set (dislikedProducts s) = {})"

section \<open>The catalogue loader\<close>










text \<open>A catalogue entry with a given identifier and category; its other fields are fixed.\<close>

definition sample_product :: "int \<Rightarrow> string \<Rightarrow> product" where
  "sample_product i c =
     \<lparr>product_id = i, title = ''item'', category = c, description = [], image = []\<rparr>"

section \<open>The toggles, list by list\<close>

lemma toggleLike_liked:
  "likedProducts (toggleLike i s) =
     (if i \<in> set (likedProducts s) then filter (\<lambda>j. j \<noteq> i) (likedProducts s)
      else likedProducts s @ [i])"
  by (simp add: toggleLike_def)

lemma toggleLike_disliked:
  "dislikedProducts (toggleLike i s) =
     (if i \<in> set (likedProducts s) then dislikedProducts s
      else filter (\<lambda>j. j \<noteq> i) (dislikedProducts s))"
  by (simp add: toggleLike_def)

lemma toggleDislike_disliked:
  "dislikedProducts (toggleDislike i s) =
     (if i \<in> set (dislikedProducts s) then filter (\<lambda>j. j \<noteq> i) (dislikedProducts s)
      else dislikedProducts s @ [i])"
  by (simp add: toggleDislike_def)

lemma toggleDislike_liked:
  "likedProducts (toggleDislike i s) =
     (if i \<in> set (dislikedProducts s) then likedProducts s
      else filter (\<lambda>j. j \<noteq> i) (likedProducts s))"
  by (simp add: toggleDislike_def)

lemmas toggle_lists =
  toggleLike_liked toggleLike_disliked toggleDislike_disliked toggleDislike_liked

lemma initial_state_lists:
  "likedProducts (initial_state l d) = l" "dislikedProducts (initial_state l d) = d"
  by (simp_all add: initial_state_def)

lemma toggleLike_frame:
  "products (toggleLike i s) = products s \<and> categories (toggleLike i s) = categories s \<and>
   filteredProducts (toggleLike i s) = filteredProducts s \<and>
   currentFilter (toggleLike i s) = currentFilter s \<and> loading (toggleLike i s) = loading s \<and>
   error (toggleLike i s) = error s \<and> currentView (toggleLike i s) = currentView s \<and>
   selectedProduct (toggleLike i s) = selectedProduct s"
  by (simp add: toggleLike_def)

lemma toggleDislike_frame:
  "products (toggleDislike i s) = products s \<and> categories (toggleDislike i s) = categories s \<and>
   filteredProducts (toggleDislike i s) = filteredProducts s \<and>
   currentFilter (toggleDislike i s) = currentFilter s \<and> loading (toggleDislike i s) = loading s \<and>
   error (toggleDislike i s) = error s \<and> currentView (toggleDislike i s) = currentView s \<and>
   selectedProduct (toggleDislike i s) = selectedProduct s"
  by (simp add: toggleDislike_def)

lemma exclusive_toggle: "exclusive s \<Longrightarrow> exclusive (apply_toggle t s)"
  by (cases t) (auto simp: exclusive_def toggle_lists)

lemma exclusive_toggles: "exclusive s \<Longrightarrow> exclusive (apply_toggles ts s)"
  by (induction ts arbitrary: s) (simp_all add: exclusive_toggle)

lemma distinct_toggle:
  "distinct (likedProducts s) \<and> distinct (dislikedProducts s) \<Longrightarrow>
   distinct (likedProducts (apply_toggle t s)) \<and> distinct (dislikedProducts (apply_toggle t s))"
  by (cases t) (auto simp: toggle_lists)

lemma distinct_toggles:
  "distinct (likedProducts s) \<and> distinct (dislikedProducts s) \<Longrightarrow>
   distinct (likedProducts (apply_toggles ts s)) \<and> distinct (dislikedProducts (apply_toggles ts s))"
proof (induction ts arbitrary: s)
  case Nil
  then show ?case by simp
next
  case (Cons t ts)
  from Cons.prems have "distinct (likedProducts (apply_toggle t s)) \<and>
      distinct (dislikedProducts (apply_toggle t s))"
    by (rule distinct_toggle)
  then show ?case using Cons.IH by simp
qed

section \<open>Decimal numerals and the JSON round trip\<close>

lemma digit_cases: "d < 10 \<Longrightarrow> d \<in> {0, 1, 2, 3, 4, 5, 6, 7, 8, 9::nat}"
  by auto

lemma digit_val_digit_char: "d < 10 \<Longrightarrow> digit_val (digit_char d) = d"
  by (drule digit_cases) (auto simp: digit_val_def digit_char_def)

lemma digit_char_range: "d < 10 \<Longrightarrow> digit_char d \<in> set ''0123456789''"
  by (drule digit_cases) (auto simp: digit_char_def)

lemma nat_of_digits_snoc: "nat_of_digits (ds @ [c]) = 10 * nat_of_digits ds + digit_val c"
  by (simp add: nat_of_digits_def)

lemma nat_of_digits_string_of_nat: "nat_of_digits (string_of_nat n) = n"
proof (induction n rule: string_of_nat.induct)
  case (1 n)
  show ?case
  proof (cases "n < 10")
    case True
    then show ?thesis
      by (simp add: string_of_nat.simps [of n] nat_of_digits_def digit_val_digit_char)
  next
    case False
    with 1 show ?thesis
      by (simp add: string_of_nat.simps [of n] nat_of_digits_snoc digit_val_digit_char)
  qed
qed

lemma string_of_nat_digits: "set (string_of_nat n) \<subseteq> set ''0123456789''"
proof (induction n rule: string_of_nat.induct)
  case (1 n)
  show ?case
  proof (cases "n < 10")
    case True
    then show ?thesis
      using digit_char_range [of n] by (simp add: string_of_nat.simps [of n])
  next
    case False
    with 1 show ?thesis
      using digit_char_range [of "n mod 10"] by (simp add: string_of_nat.simps [of n])
  qed
qed

lemma string_of_nat_not_Nil: "string_of_nat n \<noteq> []"
  by (subst string_of_nat.simps) simp

lemma string_of_nat_hd: "string_of_nat n = c # cs \<Longrightarrow> c \<noteq> CHR ''-''"
  using string_of_nat_digits [of n] by auto

lemma int_of_numeral_string_of_int: "int_of_numeral (string_of_int i) = i"
proof (cases "i < 0")
  case True
  then show ?thesis
    by (simp add: int_of_numeral_def string_of_int_def nat_of_digits_string_of_nat)
next
  case False
  obtain c cs where cs: "string_of_nat (nat i) = c # cs"
    using string_of_nat_not_Nil [of "nat i"] by (cases "string_of_nat (nat i)") auto
  have "c \<noteq> CHR ''-''" using string_of_nat_hd [OF cs] .
  moreover have "nat_of_digits (c # cs) = nat i"
    using nat_of_digits_string_of_nat [of "nat i"] cs by simp
  ultimately show ?thesis using False cs
    by (simp add: int_of_numeral_def string_of_int_def)
qed

lemma parse_numeral_string_of_int: "parse_numeral (string_of_int i) = Some i"
  by (simp add: parse_numeral_def int_of_numeral_string_of_int)

lemma string_of_int_no_comma: "CHR '','' \<notin> set (string_of_int i)"
  using string_of_nat_digits [of "nat i"] string_of_nat_digits [of "nat (- i)"]
  by (auto simp: string_of_int_def)

lemma string_of_int_not_Nil: "string_of_int i \<noteq> []"
  by (simp add: string_of_int_def string_of_nat_not_Nil)

lemma split_commas_not_Nil: "split_commas cs \<noteq> []"
  by (induction cs) (auto split: list.splits)

lemma split_commas_plain: "CHR '','' \<notin> set p \<Longrightarrow> split_commas p = [p]"
  by (induction p) auto

lemma split_commas_append:
  "CHR '','' \<notin> set p \<Longrightarrow> split_commas (p @ CHR '','' # rest) = p # split_commas rest"
  by (induction p) auto

lemma split_commas_join:
  "ps \<noteq> [] \<Longrightarrow> (\<And>p. p \<in> set ps \<Longrightarrow> CHR '','' \<notin> set p) \<Longrightarrow> split_commas (join_commas ps) = ps"
proof (induction ps rule: join_commas.induct)
  case 1
  then show ?case by simp
next
  case (2 p)
  then show ?case by (simp add: split_commas_plain)
next
  case (3 p q ps)
  then show ?case by (simp add: split_commas_append)
qed

lemma parse_numerals_map: "parse_numerals (map string_of_int xs) = Some xs"
  by (induction xs) (simp_all add: parse_numeral_string_of_int)

lemma join_commas_Nil_iff: "ps \<noteq> [] \<Longrightarrow> (\<And>p. p \<in> set ps \<Longrightarrow> p \<noteq> []) \<Longrightarrow> join_commas ps \<noteq> []"
  by (induction ps rule: join_commas.induct) auto

lemma JSON_parse_stringify: "JSON_parse (JSON_stringify xs) = Inr xs"
proof (cases xs)
  case Nil
  then show ?thesis
    by (simp add: JSON_parse_def JSON_stringify_def is_json_blank_def begins_json_value_def)
next
  case (Cons y ys)
  let ?ps = "map string_of_int xs"
  have ne: "?ps \<noteq> []" using Cons by simp
  have body: "join_commas ?ps \<noteq> []"
    using ne by (rule join_commas_Nil_iff) (auto simp: string_of_int_not_Nil)
  have split: "split_commas (join_commas ?ps) = ?ps"
    using ne by (rule split_commas_join) (auto simp: string_of_int_no_comma)
  show ?thesis
    using body split
    by (simp add: JSON_parse_def JSON_stringify_def is_json_blank_def begins_json_value_def
        parse_numerals_map)
qed

lemma JSON_stringify_not_Nil: "JSON_stringify xs \<noteq> []"
  by (simp add: JSON_stringify_def)

lemma restore_saved_stringify:
  "st key = Some (JSON_stringify xs) \<Longrightarrow> restore_saved st key = Inr xs"
  by (simp add: restore_saved_def JSON_stringify_not_Nil JSON_parse_stringify)

lemma JSON_stringify_Nil: "JSON_stringify [] = ''[]''"
  by (simp add: JSON_stringify_def)

section \<open>Persistence across clicks and restarts\<close>

lemma app_click: "app (click t w) = apply_toggle t (app w)"
  by (cases t) (simp_all add: click_toggleLike_def click_toggleDislike_def persistLiked_def
      persistDisliked_def)

lemma app_clicks: "app (clicks ts w) = apply_toggles ts (app w)"
  by (induction ts arbitrary: w) (simp_all add: app_click)

lemma persisted_click: "persisted w \<Longrightarrow> persisted (click t w)"
  by (cases t) (auto simp: persisted_def click_toggleLike_def click_toggleDislike_def
      persistLiked_def persistDisliked_def toggle_lists)

lemma persisted_clicks: "persisted w \<Longrightarrow> persisted (clicks ts w)"
  by (induction ts arbitrary: w) (simp_all add: persisted_click)

lemma persisted_mount: "AppProvider_mount st = Inr w \<Longrightarrow> persisted w"
  by (auto simp: AppProvider_mount_def persisted_def persistLiked_def persistDisliked_def
      split: sum.splits)

lemma init_persisted:
  "persisted w \<Longrightarrow>
   AppProvider_init (localStorage w) =
     Inr (initial_state (likedProducts (app w)) (dislikedProducts (app w)))"
  by (simp add: persisted_def AppProvider_init_def restore_saved_stringify)

lemma restore_absent: "st key = None \<Longrightarrow> restore_saved st key = Inr []"
  by (simp add: restore_saved_def)

lemma JSON_parse_1: "JSON_parse ''[1]'' = Inr [1]"
  by (simp add: JSON_parse_def is_json_blank_def begins_json_value_def parse_numeral_def
      int_of_numeral_def nat_of_digits_def digit_val_def string_of_int_def
      string_of_nat.simps digit_char_def)

lemma restored_lists:
  "persisted w \<Longrightarrow>
   \<exists>s'. AppProvider_init (localStorage w) = Inr s' \<and>
        likedProducts s' = likedProducts (app w) \<and>
        dislikedProducts s' = dislikedProducts (app w)"
  by (simp add: init_persisted initial_state_lists)

lemma persisted_first: "persisted (persistDisliked (persistLiked w))"
  by (simp add: persisted_def persistLiked_def persistDisliked_def)

lemma JSON_stringify_1_3: "JSON_stringify [1, 3] = ''[1,3]''"
  by (simp add: JSON_stringify_def string_of_int_def string_of_nat.simps digit_char_def)

lemma JSON_stringify_12: "JSON_stringify [12] = ''[12]''"
  by (simp add: JSON_stringify_def string_of_int_def string_of_nat.simps digit_char_def)

lemma dislike_then_like:
  "\<not> isLiked s i \<Longrightarrow>
   preference_of (toggleLike i (toggleDislike i s)) i = Some LIKED \<and>
   \<not> isDisliked (toggleLike i (toggleDislike i s)) i"
  by (auto simp: preference_of_def isLiked_def isDisliked_def toggle_lists)

section \<open>The loader and the filter\<close>




lemma subseq_filter_list: "subseq (filter P xs) xs"
  by (induction xs) auto

section \<open>The claims\<close>

text \<open>
  C1, as stated, fails. The initialisers take whatever lists the storage holds. With the
  text \<open>[1]\<close> under both keys the restored store has identifier 1 in the liked and in
  the disliked list, before any call and still after \<open>toggleLike(2)\<close>.
\<close>

theorem restored_lists_overlap:
  "AppProvider_init [''likedProducts'' \<mapsto> ''[1]'', ''dislikedProducts'' \<mapsto> ''[1]''] =
     Inr (initial_state [1] [1]) \<and>
   isLiked (initial_state [1] [1]) 1 \<and> isDisliked (initial_state [1] [1]) 1 \<and>
   isLiked (apply_toggles [ToggleLike 2] (initial_state [1] [1])) 1 \<and>
   isDisliked (apply_toggles [ToggleLike 2] (initial_state [1] [1])) 1"
  by (simp add: AppProvider_init_def restore_saved_def JSON_parse_1 isLiked_def isDisliked_def
      toggle_lists initial_state_lists)

text \<open>
  C1, amended. When the liked and the disliked list share no identifier at the start,
  they share none after any finite sequence of \<open>toggleLike\<close> and \<open>toggleDislike\<close>
  calls. A store created from storage without the two keys starts that way, and so does
  a store restored from the storage that a store with disjoint lists persisted, whatever
  was clicked in between. For any identifier not liked before, in any state,
  \<open>toggleDislike(id)\<close> followed by \<open>toggleLike(id)\<close> leaves it LIKED and absent from
  the disliked list.
\<close>

theorem toggles_keep_exclusive:
  "(exclusive s \<longrightarrow> exclusive (apply_toggles ts s)) \<and>
   (\<not> isLiked s i \<longrightarrow>
      preference_of (toggleLike i (toggleDislike i s)) i = Some LIKED \<and>
      \<not> isDisliked (toggleLike i (toggleDislike i s)) i) \<and>
   (st ''likedProducts'' = None \<and> st ''dislikedProducts'' = None \<longrightarrow>
      AppProvider_init st = Inr (initial_state [] []) \<and> exclusive (initial_state [] [])) \<and>
   (persisted w \<and> exclusive (app w) \<longrightarrow>
      AppProvider_init (localStorage (clicks ts w)) =
        Inr (initial_state (likedProducts (app (clicks ts w)))
               (dislikedProducts (app (clicks ts w)))) \<and>
      exclusive (initial_state (likedProducts (app (clicks ts w)))
               (dislikedProducts (app (clicks ts w)))))"
proof (intro conjI impI)
  assume "exclusive s"
  then show "exclusive (apply_toggles ts s)" by (rule exclusive_toggles)
next
  assume "\<not> isLiked s i"
  then show "preference_of (toggleLike i (toggleDislike i s)) i = Some LIKED"
    and "\<not> isDisliked (toggleLike i (toggleDislike i s)) i"
    using dislike_then_like by blast+
next
  assume "st ''likedProducts'' = None \<and> st ''dislikedProducts'' = None"
  then show "AppProvider_init st = Inr (initial_state [] [])"
    by (simp add: AppProvider_init_def restore_absent)
next
  show "exclusive (initial_state [] [])"
    by (simp add: exclusive_def initial_state_def)
next
  assume a: "persisted w \<and> exclusive (app w)"
  then have "persisted (clicks ts w)" by (simp add: persisted_clicks)
  then show "AppProvider_init (localStorage (clicks ts w)) =
        Inr (initial_state (likedProducts (app (clicks ts w)))
               (dislikedProducts (app (clicks ts w))))"
    by (rule init_persisted)
  from a have "exclusive (app (clicks ts w))"
    by (simp add: app_clicks exclusive_toggles)
  then show "exclusive (initial_state (likedProducts (app (clicks ts w)))
               (dislikedProducts (app (clicks ts w))))"
    by (simp add: exclusive_def initial_state_def)
qed

theorem toggles_keep_exclusive_witness:
  "exclusive (initial_state [1] [2]) \<and>
   exclusive (apply_toggles [ToggleDislike 1, ToggleLike 2] (initial_state [1] [2])) \<and>
   \<not> isLiked (initial_state [1] [2]) 2 \<and>
   preference_of (toggleLike 2 (toggleDislike 2 (initial_state [1] [2]))) 2 = Some LIKED \<and>
   \<not> isDisliked (toggleLike 2 (toggleDislike 2 (initial_state [1] [2]))) 2 \<and>
   AppProvider_init Map.empty = Inr (initial_state [] []) \<and>
   persisted \<lparr>app = initial_state [] [],
      localStorage = [''likedProducts'' \<mapsto> ''[]'', ''dislikedProducts'' \<mapsto> ''[]'']\<rparr> \<and>
   exclusive (initial_state
     (likedProducts (app (clicks [ToggleDislike 1, ToggleLike 2] \<lparr>app = initial_state [] [],
      localStorage = [''likedProducts'' \<mapsto> ''[]'', ''dislikedProducts'' \<mapsto> ''[]'']\<rparr>)))
     (dislikedProducts (app (clicks [ToggleDislike 1, ToggleLike 2] \<lparr>app = initial_state [] [],
      localStorage = [''likedProducts'' \<mapsto> ''[]'', ''dislikedProducts'' \<mapsto> ''[]'']\<rparr>))))"
proof -
  let ?w = "\<lparr>app = initial_state [] [],
      localStorage = [''likedProducts'' \<mapsto> ''[]'', ''dislikedProducts'' \<mapsto> ''[]'']\<rparr>"
  have e: "exclusive (initial_state [1] [2])"
    by (simp add: exclusive_def initial_state_def)
  have l: "\<not> isLiked (initial_state [1] [2]) 2"
    by (simp add: isLiked_def initial_state_def)
  have n: "(Map.empty :: storage) ''likedProducts'' = None \<and>
      (Map.empty :: storage) ''dislikedProducts'' = None"
    by simp
  have p: "persisted ?w \<and> exclusive (app ?w)"
    by (simp add: persisted_def exclusive_def initial_state_def JSON_stringify_Nil)
  show ?thesis
    using e l n p
      toggles_keep_exclusive [of "initial_state [1] [2]" "[ToggleDislike 1, ToggleLike 2]" 2
        Map.empty ?w]
    by simp
qed

text \<open>
  C2. Per identifier, \<open>toggleLike\<close> and \<open>toggleDislike\<close> follow the transition table
  of the specification: \<open>toggleLike(id)\<close> takes NEUTRAL to LIKED, LIKED to NEUTRAL and
  DISLIKED to LIKED; \<open>toggleDislike(id)\<close> takes NEUTRAL to DISLIKED, DISLIKED to
  NEUTRAL and LIKED to DISLIKED. The state of every other identifier stays as it was,
  so there is no other transition.
\<close>

theorem toggle_transition_table:
  "preference_of s i = Some p \<Longrightarrow>
     preference_of (toggleLike i s) i = Some (spec_toggleLike p) \<and>
     preference_of (toggleDislike i s) i = Some (spec_toggleDislike p) \<and>
     (j \<noteq> i \<longrightarrow> preference_of (toggleLike i s) j = preference_of s j \<and>
                preference_of (toggleDislike i s) j = preference_of s j)"
  by (cases p) (auto simp: preference_of_def isLiked_def isDisliked_def toggle_lists
      split: if_splits)

theorem toggle_transition_table_witness:
  "preference_of (initial_state [] [7]) 7 = Some DISLIKED \<and>
   preference_of (toggleLike 7 (initial_state [] [7])) 7 = Some LIKED \<and>
   preference_of (toggleDislike 7 (initial_state [] [7])) 7 = Some NEUTRAL \<and>
   preference_of (toggleLike 7 (initial_state [] [7])) 3 = Some NEUTRAL \<and>
   preference_of (toggleDislike 7 (initial_state [] [7])) 3 = Some NEUTRAL"
proof -
  have h: "preference_of (initial_state [] [7]) 7 = Some DISLIKED"
    by (simp add: preference_of_def isLiked_def isDisliked_def initial_state_def)
  have n: "preference_of (initial_state [] [7]) 3 = Some NEUTRAL"
    by (simp add: preference_of_def isLiked_def isDisliked_def initial_state_def)
  show ?thesis
    using h n toggle_transition_table [OF h, of 3] by simp
qed

text \<open>
  C3. A missing key gives the empty list, but a stored text that is not JSON does not:
  the initialiser calls \<open>JSON.parse\<close> outside any \<open>try\<close>, so with the text \<open>oops\<close>
  under \<open>likedProducts\<close> the first render of the provider ends in the
  \<open>SyntaxError\<close> and no store comes into being, where the claim has the list start
  empty.
\<close>

theorem corrupted_storage_stops_startup:
  "JSON_parse ''oops'' = Inl SyntaxError \<and>
   restore_saved [''likedProducts'' \<mapsto> ''oops''] ''likedProducts'' = Inl SyntaxError \<and>
   AppProvider_init [''likedProducts'' \<mapsto> ''oops''] = Inl SyntaxError \<and>
   AppProvider_mount [''likedProducts'' \<mapsto> ''oops''] = Inl SyntaxError \<and>
   restore_saved [''likedProducts'' \<mapsto> ''oops''] ''dislikedProducts'' = Inr []"
  by (simp add: AppProvider_mount_def AppProvider_init_def restore_saved_def JSON_parse_def
      is_json_blank_def begins_json_value_def)

text \<open>
  C4, as stated, fails for a disliked identifier: the first \<open>toggleLike\<close> makes it
  LIKED and the second NEUTRAL, not DISLIKED again.
\<close>

theorem double_toggleLike_from_disliked:
  "preference_of (initial_state [] [1]) 1 = Some DISLIKED \<and>
   preference_of (toggleLike 1 (toggleLike 1 (initial_state [] [1]))) 1 = Some NEUTRAL"
  by (simp add: preference_of_def isLiked_def isDisliked_def toggle_lists initial_state_lists)

text \<open>
  C4, amended. Calling \<open>toggleLike(id)\<close> twice in succession leaves the preference
  state of the identifier as it was when it started NEUTRAL or LIKED, and leaves it
  NEUTRAL when it started DISLIKED.
\<close>

theorem double_toggleLike:
  "preference_of s i = Some p \<Longrightarrow>
   preference_of (toggleLike i (toggleLike i s)) i = Some (if p = DISLIKED then NEUTRAL else p)"
  by (cases p) (auto simp: preference_of_def isLiked_def isDisliked_def toggle_lists
      split: if_splits)

theorem double_toggleLike_witness:
  "preference_of (initial_state [4] []) 4 = Some LIKED \<and>
   preference_of (toggleLike 4 (toggleLike 4 (initial_state [4] []))) 4 = Some LIKED"
proof -
  have h: "preference_of (initial_state [4] []) 4 = Some LIKED"
    by (simp add: preference_of_def isLiked_def isDisliked_def initial_state_def)
  show ?thesis using h double_toggleLike [OF h] by simp
qed

text \<open>
  C5. With the sentinel \<open>all\<close> the filter shows the whole product list unchanged. With
  any other category it shows exactly the products of the list whose category field
  equals it, each as often as it occurs and in the order of the list; the category is
  recorded as the current filter in both cases.
\<close>

theorem filterProducts_result:
  "filteredProducts (filterProducts ''all'' s) = products s \<and>
   currentFilter (filterProducts f s) = f \<and>
   (f \<noteq> ''all'' \<longrightarrow>
      filteredProducts (filterProducts f s) = filter (\<lambda>p. category p = f) (products s) \<and>
      set (filteredProducts (filterProducts f s)) = {p \<in> set (products s). category p = f} \<and>
      subseq (filteredProducts (filterProducts f s)) (products s))"
  by (auto simp: filterProducts_def subseq_filter_list)

theorem filterProducts_result_witness:
  "''a'' \<noteq> ''all'' \<and>
   filteredProducts (filterProducts ''a''
     ((initial_state [] [])\<lparr>products := [sample_product 1 ''a'', sample_product 2 ''b'',
        sample_product 3 ''a'']\<rparr>)) =
     [sample_product 1 ''a'', sample_product 3 ''a''] \<and>
   filteredProducts (filterProducts ''all''
     ((initial_state [] [])\<lparr>products := [sample_product 1 ''a'', sample_product 2 ''b'',
        sample_product 3 ''a'']\<rparr>)) =
     [sample_product 1 ''a'', sample_product 2 ''b'', sample_product 3 ''a'']"
proof -
  have h: "''a'' \<noteq> ''all''" by simp
  have c: "category (sample_product i c) = c" for i c
    by (simp add: sample_product_def)
  show ?thesis
    using filterProducts_result [of "(initial_state [] [])\<lparr>products := [sample_product 1 ''a'',
        sample_product 2 ''b'', sample_product 3 ''a'']\<rparr>" "''a''"]
    by (simp add: c)
qed




text \<open>
  C7. Take any state of the provider with safe integers in its two lists, let the
  persistence effects of the first render run, and let any sequence of clicks on safe
  identifiers follow. Then both keys hold the text of the current lists, and the
  initialisers of a provider started from that storage succeed and give exactly the
  current liked and disliked lists. A further click on like writes the text of the new
  liked list under \<open>likedProducts\<close>, and one on dislike that of the new disliked list
  under \<open>dislikedProducts\<close>, replacing what the key held; the other list is either
  unchanged or written as well.
\<close>

theorem persistence_round_trip:
  assumes "list_all safe_integer (likedProducts s)"
    and "list_all safe_integer (dislikedProducts s)"
    and "list_all safe_integer (map toggled ts)" and "safe_integer i"
    and "w = clicks ts (persistDisliked (persistLiked \<lparr>app = s, localStorage = st\<rparr>))"
  shows "localStorage w ''likedProducts'' = Some (JSON_stringify (likedProducts (app w))) \<and>
   localStorage w ''dislikedProducts'' = Some (JSON_stringify (dislikedProducts (app w))) \<and>
   (\<exists>s'. AppProvider_init (localStorage w) = Inr s' \<and>
         likedProducts s' = likedProducts (app w) \<and>
         dislikedProducts s' = dislikedProducts (app w)) \<and>
   localStorage (click_toggleLike i w) ''likedProducts'' =
     Some (JSON_stringify (likedProducts (app (click_toggleLike i w)))) \<and>
   localStorage (click_toggleDislike i w) ''dislikedProducts'' =
     Some (JSON_stringify (dislikedProducts (app (click_toggleDislike i w)))) \<and>
   (if i \<in> set (likedProducts (app w))
    then dislikedProducts (app (click_toggleLike i w)) = dislikedProducts (app w)
    else localStorage (click_toggleLike i w) ''dislikedProducts'' =
           Some (JSON_stringify (dislikedProducts (app (click_toggleLike i w))))) \<and>
   (if i \<in> set (dislikedProducts (app w))
    then likedProducts (app (click_toggleDislike i w)) = likedProducts (app w)
    else localStorage (click_toggleDislike i w) ''likedProducts'' =
           Some (JSON_stringify (likedProducts (app (click_toggleDislike i w)))))"
proof -
  have p: "persisted w"
    unfolding assms(5) by (rule persisted_clicks) (rule persisted_first)
  have k: "localStorage w ''likedProducts'' = Some (JSON_stringify (likedProducts (app w)))"
    "localStorage w ''dislikedProducts'' = Some (JSON_stringify (dislikedProducts (app w)))"
    using p by (simp_all add: persisted_def)
  have r: "\<exists>s'. AppProvider_init (localStorage w) = Inr s' \<and>
         likedProducts s' = likedProducts (app w) \<and>
         dislikedProducts s' = dislikedProducts (app w)"
    using p by (rule restored_lists)
  have a: "localStorage (click_toggleLike i w) ''likedProducts'' =
     Some (JSON_stringify (likedProducts (app (click_toggleLike i w))))"
    by (simp add: click_toggleLike_def persistLiked_def persistDisliked_def)
  have b: "localStorage (click_toggleDislike i w) ''dislikedProducts'' =
     Some (JSON_stringify (dislikedProducts (app (click_toggleDislike i w))))"
    by (simp add: click_toggleDislike_def persistLiked_def persistDisliked_def)
  have c: "if i \<in> set (likedProducts (app w))
    then dislikedProducts (app (click_toggleLike i w)) = dislikedProducts (app w)
    else localStorage (click_toggleLike i w) ''dislikedProducts'' =
           Some (JSON_stringify (dislikedProducts (app (click_toggleLike i w))))"
    by (simp add: click_toggleLike_def persistLiked_def persistDisliked_def toggle_lists)
  have d: "if i \<in> set (dislikedProducts (app w))
    then likedProducts (app (click_toggleDislike i w)) = likedProducts (app w)
    else localStorage (click_toggleDislike i w) ''likedProducts'' =
           Some (JSON_stringify (likedProducts (app (click_toggleDislike i w))))"
    by (simp add: click_toggleDislike_def persistLiked_def persistDisliked_def toggle_lists)
  from k r a b c d show ?thesis by blast
qed

theorem persistence_round_trip_witness:
  "list_all safe_integer (likedProducts (initial_state [] [])) \<and>
   list_all safe_integer (dislikedProducts (initial_state [] [])) \<and>
   list_all safe_integer (map toggled [ToggleLike 1, ToggleDislike 12, ToggleLike 3]) \<and>
   safe_integer 12 \<and>
   localStorage (clicks [ToggleLike 1, ToggleDislike 12, ToggleLike 3]
     (persistDisliked (persistLiked \<lparr>app = initial_state [] [], localStorage = Map.empty\<rparr>)))
     ''likedProducts'' = Some ''[1,3]'' \<and>
   localStorage (clicks [ToggleLike 1, ToggleDislike 12, ToggleLike 3]
     (persistDisliked (persistLiked \<lparr>app = initial_state [] [], localStorage = Map.empty\<rparr>)))
     ''dislikedProducts'' = Some ''[12]'' \<and>
   (\<exists>s'. AppProvider_init (localStorage (clicks [ToggleLike 1, ToggleDislike 12, ToggleLike 3]
       (persistDisliked (persistLiked \<lparr>app = initial_state [] [], localStorage = Map.empty\<rparr>)))) =
       Inr s' \<and> likedProducts s' = [1, 3] \<and> dislikedProducts s' = [12])"
proof -
  let ?w0 = "persistDisliked (persistLiked \<lparr>app = initial_state [] [], localStorage = Map.empty\<rparr>)"
  let ?ts = "[ToggleLike 1, ToggleDislike 12, ToggleLike 3]"
  have s: "list_all safe_integer (likedProducts (initial_state [] []))"
    "list_all safe_integer (dislikedProducts (initial_state [] []))"
    "list_all safe_integer (map toggled ?ts)" "safe_integer 12"
    by (simp_all add: safe_integer_def initial_state_lists)
  have a: "app ?w0 = initial_state [] []"
    by (simp add: persistLiked_def persistDisliked_def)
  have l: "likedProducts (app (clicks ?ts ?w0)) = [1, 3]"
    unfolding app_clicks a by (simp add: toggle_lists initial_state_lists)
  have d: "dislikedProducts (app (clicks ?ts ?w0)) = [12]"
    unfolding app_clicks a by (simp add: toggle_lists initial_state_lists)
  show ?thesis
    using s persistence_round_trip [OF s refl, of Map.empty]
    unfolding l d JSON_stringify_1_3 JSON_stringify_12
    by blast
qed

text \<open>
  C8, as stated, fails. \<open>navigateTo\<close> stores its second argument as the selected
  product on every call: leaving the detail view for the product list without passing a
  product resets the selection to \<open>null\<close>, so the earlier product is not retained, and
  a product passed along with a view other than the detail view is stored too.
\<close>

theorem navigateTo_clears_selection:
  "selectedProduct (navigateTo ''detail'' (Some (sample_product 1 ''a'')) (initial_state [] [])) =
     Some (sample_product 1 ''a'') \<and>
   selectedProduct (navigateTo ''products'' None
     (navigateTo ''detail'' (Some (sample_product 1 ''a'')) (initial_state [] []))) = None \<and>
   selectedProduct (navigateTo ''home'' (Some (sample_product 1 ''a'')) (initial_state [] [])) =
     Some (sample_product 1 ''a'')"
  by (simp add: navigateTo_def)

text \<open>
  C8, amended. For every view name, \<open>navigateTo(view, product?)\<close> sets the active view
  to that view and the selected product to the product passed, or to \<open>null\<close> when none
  is passed, whatever was selected before; the rest of the state is left as it was.
\<close>

theorem navigateTo_sets_both:
  "currentView (navigateTo v p s) = v \<and> selectedProduct (navigateTo v p s) = p \<and>
   products (navigateTo v p s) = products s \<and> categories (navigateTo v p s) = categories s \<and>
   filteredProducts (navigateTo v p s) = filteredProducts s \<and>
   currentFilter (navigateTo v p s) = currentFilter s \<and>
   likedProducts (navigateTo v p s) = likedProducts s \<and>
   dislikedProducts (navigateTo v p s) = dislikedProducts s \<and>
   loading (navigateTo v p s) = loading s \<and> error (navigateTo v p s) = error s"
  by (simp add: navigateTo_def)

text \<open>
  C9. For distinct identifiers \<open>id\<close> and \<open>j\<close>, \<open>toggleLike(id)\<close> and
  \<open>toggleDislike(id)\<close> leave the membership of \<open>j\<close> in the liked and in the disliked
  list as it was, and they leave the products, the categories, the filtered products,
  the current filter, the current view and the selected product untouched.
\<close>

theorem toggles_frame:
  "j \<noteq> i \<Longrightarrow>
   isLiked (toggleLike i s) j = isLiked s j \<and> isDisliked (toggleLike i s) j = isDisliked s j \<and>
   isLiked (toggleDislike i s) j = isLiked s j \<and>
   isDisliked (toggleDislike i s) j = isDisliked s j \<and>
   products (toggleLike i s) = products s \<and> products (toggleDislike i s) = products s \<and>
   categories (toggleLike i s) = categories s \<and> categories (toggleDislike i s) = categories s \<and>
   filteredProducts (toggleLike i s) = filteredProducts s \<and>
   filteredProducts (toggleDislike i s) = filteredProducts s \<and>
   currentFilter (toggleLike i s) = currentFilter s \<and>
   currentFilter (toggleDislike i s) = currentFilter s \<and>
   currentView (toggleLike i s) = currentView s \<and>
   currentView (toggleDislike i s) = currentView s \<and>
   selectedProduct (toggleLike i s) = selectedProduct s \<and>
   selectedProduct (toggleDislike i s) = selectedProduct s"
  by (simp add: toggleLike_frame toggleDislike_frame isLiked_def isDisliked_def toggle_lists)

theorem toggles_frame_witness:
  "(5::int) \<noteq> 6 \<and>
   isLiked (toggleLike 6 (initial_state [5] [6])) 5 = isLiked (initial_state [5] [6]) 5 \<and>
   isDisliked (toggleDislike 6 (initial_state [5] [6])) 5 = isDisliked (initial_state [5] [6]) 5 \<and>
   selectedProduct (toggleLike 6 (initial_state [5] [6])) = selectedProduct (initial_state [5] [6])"
proof -
  have h: "(5::int) \<noteq> 6" by simp
  show ?thesis using toggles_frame [OF h, of "initial_state [5] [6]"] by simp
qed

text \<open>
  C10. When neither list holds an identifier twice at the start, neither does after any
  finite sequence of \<open>toggleLike\<close> and \<open>toggleDislike\<close> calls, so the length of the
  liked list is the number of distinct liked products.
\<close>

theorem toggles_keep_distinct:
  "distinct (likedProducts s) \<Longrightarrow> distinct (dislikedProducts s) \<Longrightarrow>
   distinct (likedProducts (apply_toggles ts s)) \<and>
   distinct (dislikedProducts (apply_toggles ts s)) \<and>
   length (likedProducts (apply_toggles ts s)) = card (set (likedProducts (apply_toggles ts s)))"
  using distinct_toggles [of s ts] by (simp add: distinct_card)

theorem toggles_keep_distinct_witness:
  "distinct (likedProducts (initial_state [] [])) \<and>
   distinct (dislikedProducts (initial_state [] [])) \<and>
   distinct (likedProducts (apply_toggles [ToggleLike 1, ToggleLike 2, ToggleLike 1, ToggleLike 1]
      (initial_state [] []))) \<and>
   length (likedProducts (apply_toggles [ToggleLike 1, ToggleLike 2, ToggleLike 1, ToggleLike 1]
      (initial_state [] []))) =
   card (set (likedProducts (apply_toggles [ToggleLike 1, ToggleLike 2, ToggleLike 1, ToggleLike 1]
      (initial_state [] []))))"
proof -
  have l: "distinct (likedProducts (initial_state [] []))"
    and d: "distinct (dislikedProducts (initial_state [] []))"
    by (simp_all add: initial_state_def)
  show ?thesis
    using l d toggles_keep_distinct [OF l d,
        of "[ToggleLike 1, ToggleLike 2, ToggleLike 1, ToggleLike 1]"]
    by simp
qed

end
